theory Spec2Isabelle
  imports Complex_Main
begin

section \<open>Numbers of the notebook\<close>

text \<open>
  The notebook computes with Python floats and NumPy \<open>float64\<close> values. A finite value is
  modelled as a real number: rounding, overflow, underflow and the sign of zero are left
  out. What is kept are the special values that NumPy produces instead of raising: a
  division by zero gives an infinity or NaN, the square root of a negative number gives
  NaN, and both propagate through the arithmetic as IEEE 754 prescribes.
\<close>

datatype npfloat = Finite real | PosInf | NegInf | NaN

fun fl_neg :: "npfloat \<Rightarrow> npfloat" where
  "fl_neg (Finite a) = Finite (- a)"
| "fl_neg PosInf = NegInf"
| "fl_neg NegInf = PosInf"
| "fl_neg NaN = NaN"

fun fl_add :: "npfloat \<Rightarrow> npfloat \<Rightarrow> npfloat" where
  "fl_add (Finite a) (Finite b) = Finite (a + b)"
| "fl_add NaN _ = NaN"
| "fl_add _ NaN = NaN"
| "fl_add PosInf NegInf = NaN"
| "fl_add NegInf PosInf = NaN"
| "fl_add PosInf _ = PosInf"
| "fl_add _ PosInf = PosInf"
| "fl_add NegInf _ = NegInf"
| "fl_add _ NegInf = NegInf"

definition fl_sub :: "npfloat \<Rightarrow> npfloat \<Rightarrow> npfloat" where
  "fl_sub a b = fl_add a (fl_neg b)"

fun fl_mul :: "npfloat \<Rightarrow> npfloat \<Rightarrow> npfloat" where
  "fl_mul (Finite a) (Finite b) = Finite (a * b)"
| "fl_mul NaN _ = NaN"
| "fl_mul _ NaN = NaN"
| "fl_mul PosInf (Finite b) = (if b = 0 then NaN else if 0 < b then PosInf else NegInf)"
| "fl_mul NegInf (Finite b) = (if b = 0 then NaN else if 0 < b then NegInf else PosInf)"
| "fl_mul (Finite a) PosInf = (if a = 0 then NaN else if 0 < a then PosInf else NegInf)"
| "fl_mul (Finite a) NegInf = (if a = 0 then NaN else if 0 < a then NegInf else PosInf)"
| "fl_mul PosInf PosInf = PosInf"
| "fl_mul PosInf NegInf = NegInf"
| "fl_mul NegInf PosInf = NegInf"
| "fl_mul NegInf NegInf = PosInf"

fun fl_div :: "npfloat \<Rightarrow> npfloat \<Rightarrow> npfloat" where
  "fl_div (Finite a) (Finite b) =
     (if b \<noteq> 0 then Finite (a / b)
      else if a = 0 then NaN else if 0 < a then PosInf else NegInf)"
| "fl_div NaN _ = NaN"
| "fl_div _ NaN = NaN"
| "fl_div (Finite a) PosInf = Finite 0"
| "fl_div (Finite a) NegInf = Finite 0"
| "fl_div PosInf (Finite b) = (if 0 \<le> b then PosInf else NegInf)"
| "fl_div NegInf (Finite b) = (if 0 \<le> b then NegInf else PosInf)"
| "fl_div _ _ = NaN"

text \<open>\<open>v**2\<close> on a \<open>float64\<close>.\<close>

definition fl_sq :: "npfloat \<Rightarrow> npfloat" where
  "fl_sq v = fl_mul v v"

text \<open>\<open>np.sqrt\<close>: NaN for a negative argument (with a warning, not an exception).\<close>

fun fl_sqrt :: "npfloat \<Rightarrow> npfloat" where
  "fl_sqrt (Finite a) = (if 0 \<le> a then Finite (sqrt a) else NaN)"
| "fl_sqrt PosInf = PosInf"
| "fl_sqrt NegInf = NaN"
| "fl_sqrt NaN = NaN"

text \<open>The comparisons \<open>v > 0\<close> and \<open>v >= 0\<close>; both are false for NaN.\<close>

fun fl_gt0 :: "npfloat \<Rightarrow> bool" where
  "fl_gt0 (Finite a) = (0 < a)"
| "fl_gt0 PosInf = True"
| "fl_gt0 _ = False"

fun fl_ge0 :: "npfloat \<Rightarrow> bool" where
  "fl_ge0 (Finite a) = (0 \<le> a)"
| "fl_ge0 PosInf = True"
| "fl_ge0 _ = False"

text \<open>
  The exceptions that can leave the notebook's two functions: Python's
  \<open>ZeroDivisionError\<close> for a float divided by zero, SciPy's
  \<open>ValueError("Domain error in arguments.")\<close> and NumPy's
  \<open>ValueError("negative dimensions are not allowed")\<close>.
\<close>

datatype py_error = ZeroDivisionError | DomainError | NegativeDimensions

section \<open>The SciPy distributions that the notebook calls\<close>

text \<open>
  \<open>scipy.stats\<close> is a library, not part of the notebook; the four methods that the
  notebook calls are written down here as SciPy documents and implements them for every
  continuous distribution (\<open>rv_continuous\<close>).

  \<open>pdf(x, loc, scale)\<close> standardises \<open>y = (x - loc) / scale\<close> and returns NaN when a shape
  argument is invalid, when \<open>scale > 0\<close> does not hold or when \<open>y\<close> is NaN; otherwise
  the standard density at \<open>y\<close> divided by \<open>scale\<close> inside the support and 0 outside.
  The standard normal density is \<open>exp(-y**2/2) / sqrt(2*pi)\<close> on the whole line.
\<close>

fun norm_std_pdf :: "npfloat \<Rightarrow> npfloat" where
  "norm_std_pdf (Finite y) = Finite (exp (- y\<^sup>2 / 2) / sqrt (2 * pi))"
| "norm_std_pdf PosInf = Finite 0"
| "norm_std_pdf NegInf = Finite 0"
| "norm_std_pdf NaN = NaN"

definition norm_pdf :: "real \<Rightarrow> npfloat \<Rightarrow> npfloat \<Rightarrow> npfloat" where
  "norm_pdf x loc scale =
     (let y = fl_div (fl_sub (Finite x) loc) scale
      in if \<not> fl_gt0 scale \<or> y = NaN then NaN else fl_div (norm_std_pdf y) scale)"

text \<open>
  The standard inverse-gamma density with shape \<open>a\<close> is
  \<open>y**(-a-1) / gamma(a) * exp(-1/y)\<close> on the open support \<open>y > 0\<close>. The gamma function
  is not available in this logic's library; it is the parameter \<open>Gam\<close>.
\<close>

definition invgamma_std_pdf :: "(real \<Rightarrow> real) \<Rightarrow> real \<Rightarrow> real \<Rightarrow> real" where
  "invgamma_std_pdf Gam y a = y powr (- a - 1) / Gam a * exp (- 1 / y)"

definition invgamma_pdf :: "(real \<Rightarrow> real) \<Rightarrow> real \<Rightarrow> real \<Rightarrow> real \<Rightarrow> npfloat" where
  "invgamma_pdf Gam x a scale =
     (let y = fl_div (fl_sub (Finite x) (Finite 0)) (Finite scale)
      in if \<not> (0 < a \<and> 0 < scale) \<or> y = NaN then NaN
         else (case y of
                 Finite v \<Rightarrow>
                   if 0 < v then Finite (invgamma_std_pdf Gam v a / scale) else Finite 0
               | _ \<Rightarrow> Finite 0))"

text \<open>
  \<open>rvs(loc, scale, size)\<close> raises the domain error unless the shape arguments are valid
  and \<open>scale >= 0\<close> holds for every entry of \<open>scale\<close>; it returns \<open>loc * ones(size)\<close>
  when every entry of \<open>scale\<close> is zero, and otherwise draws \<open>size\<close> standard variates and
  returns \<open>vals * scale + loc\<close>. A negative \<open>size\<close> makes NumPy raise when the array is
  created.

  The generator is the source of randomness. It is modelled by what it yields: the
  sequence of standard inverse-gamma variates for a shape \<open>a\<close>, and the sequence of
  standard normal variates, in the order of the draws.
\<close>

record random_source =
  std_invgamma :: "real \<Rightarrow> nat \<Rightarrow> real"
  std_normal :: "nat \<Rightarrow> real"

definition invgamma_rvs ::
  "random_source \<Rightarrow> real \<Rightarrow> real \<Rightarrow> int \<Rightarrow> py_error + npfloat list" where
  "invgamma_rvs rs a scale size' =
     (if \<not> (0 < a \<and> 0 \<le> scale) then Inl DomainError
      else if size' < 0 then Inl NegativeDimensions
      else if scale = 0 then Inr (replicate (nat size') (Finite 0))
      else Inr (map (\<lambda>i. fl_add (fl_mul (Finite (std_invgamma rs a i)) (Finite scale))
                                 (Finite 0))
                    [0..<nat size']))"

text \<open>
  The notebook passes an array as \<open>scale\<close> to \<open>norm.rvs\<close>, of the length \<open>size\<close>; the
  product \<open>vals * scale\<close> is taken entry by entry.
\<close>

definition norm_rvs ::
  "random_source \<Rightarrow> real \<Rightarrow> npfloat list \<Rightarrow> int \<Rightarrow> py_error + npfloat list" where
  "norm_rvs rs loc scale size' =
     (if \<not> list_all fl_ge0 scale then Inl DomainError
      else if size' < 0 then Inl NegativeDimensions
      else if list_all (\<lambda>s. s = Finite 0) scale then Inr (replicate (nat size') (Finite loc))
      else Inr (map (\<lambda>(i, s). fl_add (fl_mul (Finite (std_normal rs i)) s) (Finite loc))
                    (zip [0..<nat size'] scale)))"

section \<open>The functions of the notebook\<close>

text \<open>
  \<^verbatim>\<open>
  def norminvgamma_pdf(x, sigma2, mu, nu, alpha, beta):
      return (
          sts.norm.pdf(x, loc=mu, scale=np.sqrt(sigma2 / nu)) *
          sts.invgamma.pdf(sigma2, a=alpha, scale=beta))
  \<close>
  The arguments are Python floats, so \<open>sigma2 / nu\<close> raises for \<open>nu = 0\<close>.
\<close>

definition norminvgamma_pdf ::
  "(real \<Rightarrow> real) \<Rightarrow> real \<Rightarrow> real \<Rightarrow> real \<Rightarrow> real \<Rightarrow> real \<Rightarrow> real \<Rightarrow> py_error + npfloat" where
  "norminvgamma_pdf Gam x sigma2 mu nu alpha beta =
     (if nu = 0 then Inl ZeroDivisionError
      else Inr (fl_mul (norm_pdf x (Finite mu) (fl_sqrt (Finite (sigma2 / nu))))
                       (invgamma_pdf Gam sigma2 alpha beta)))"

text \<open>
  \<^verbatim>\<open>
  def norminvgamma_rvs(mu, nu, alpha, beta, size=1):
      sigma2 = sts.invgamma.rvs(a=alpha, scale=beta, size=size)
      x = sts.norm.rvs(loc=mu, scale=np.sqrt(sigma2 / nu), size=size)
      return np.vstack((x, sigma2)).transpose()
  \<close>
  Here \<open>sigma2\<close> is an array, so \<open>sigma2 / nu\<close> is NumPy's division and does not raise.
  A matrix is the list of its rows.
\<close>

definition norminvgamma_rvs ::
  "random_source \<Rightarrow> real \<Rightarrow> real \<Rightarrow> real \<Rightarrow> real \<Rightarrow> int \<Rightarrow> py_error + npfloat list list" where
  "norminvgamma_rvs rs mu nu alpha beta size' =
     (case invgamma_rvs rs alpha beta size' of
        Inl e \<Rightarrow> Inl e
      | Inr sigma2 \<Rightarrow>
          (case norm_rvs rs mu (map (\<lambda>s. fl_sqrt (fl_div s (Finite nu))) sigma2) size' of
             Inl e \<Rightarrow> Inl e
           | Inr x \<Rightarrow> Inr (transpose [x, sigma2])))"

text \<open>
  The plot of Task 1, for one sample \<open>i\<close> (a matrix with the single row \<open>(x, sigma2)\<close>)
  over the grid \<open>x\<close>:
  \<^verbatim>\<open>
  plt.plot(x, sts.norm.pdf(x, i[0][0],i[0][1]))
  \<close>
  The function gives the ordinates of the curve.
\<close>

definition task1_curve :: "real list \<Rightarrow> npfloat list list \<Rightarrow> npfloat list" where
  "task1_curve x i = map (\<lambda>t. norm_pdf t (i ! 0 ! 0) (i ! 0 ! 1)) x"

subsection \<open>Task 3: the posterior hyperparameters\<close>

text \<open>
  The cell of Task 3, as a function of the prior hyperparameters \<open>mu_0\<close>, \<open>nu_0\<close>,
  \<open>alpha_0\<close>, \<open>beta_0\<close> (Python numbers) and of the array \<open>data\<close>:
  \<^verbatim>\<open>
  n = len(data)
  d = np.mean(data)
  mu_post = (nu_0*mu_0 + n*d)/(nu_0+n)
  nu_post = nu_0 + n
  alpha_post = alpha_0 + n/2
  sum = 0
  for i in data:
      sum += (i - d)**2
  beta_post = beta_0 + 0.5*sum + (n*nu_0)*(d-mu_0)**2 / (2*nu_0+2*n)
  \<close>
  \<open>np.mean\<close> divides the sum of the array by its length as \<open>float64\<close> values, so the mean
  of an empty array is NaN. Everything computed from \<open>d\<close> is a \<open>float64\<close>; \<open>nu_post\<close> and
  \<open>alpha_post\<close> are computed from Python numbers only.
\<close>

definition np_mean :: "real list \<Rightarrow> npfloat" where
  "np_mean data = fl_div (Finite (sum_list data)) (Finite (real (length data)))"

text \<open>The loop \<open>for i in data: sum += (i - d)**2\<close>, with the running value of \<open>sum\<close>.\<close>

fun sum_loop :: "npfloat \<Rightarrow> npfloat \<Rightarrow> real list \<Rightarrow> npfloat" where
  "sum_loop d s [] = s"
| "sum_loop d s (i # data) = sum_loop d (fl_add s (fl_sq (fl_sub (Finite i) d))) data"

text \<open>The last summand of \<open>beta_post\<close>: \<open>(n*nu_0)*(d-mu_0)**2 / (2*nu_0+2*n)\<close>.\<close>

definition cross_term :: "real \<Rightarrow> real \<Rightarrow> npfloat \<Rightarrow> real \<Rightarrow> npfloat" where
  "cross_term n nu_0 d mu_0 =
     fl_div (fl_mul (Finite (n * nu_0)) (fl_sq (fl_sub d (Finite mu_0))))
            (Finite (2 * nu_0 + 2 * n))"

record posterior =
  mu_post :: npfloat
  nu_post :: real
  alpha_post :: real
  beta_post :: npfloat

definition posterior_update :: "real \<Rightarrow> real \<Rightarrow> real \<Rightarrow> real \<Rightarrow> real list \<Rightarrow> posterior" where
  "posterior_update mu_0 nu_0 alpha_0 beta_0 data =
     (let n = real (length data);
          d = np_mean data;
          sum = sum_loop d (Finite 0) data
      in \<lparr> mu_post = fl_div (fl_add (Finite (nu_0 * mu_0)) (fl_mul (Finite n) d))
                              (Finite (nu_0 + n)),
           nu_post = nu_0 + n,
           alpha_post = alpha_0 + n / 2,
           beta_post = fl_add (fl_add (Finite beta_0) (fl_mul (Finite 0.5) sum))
                              (cross_term n nu_0 d mu_0) \<rparr>)"

section \<open>The notions of the specification\<close>

text \<open>
  The density of the normal distribution with a mean and a variance, and the density of
  the inverse-gamma distribution with a shape and a scale, as the textbooks give them.
\<close>

definition normal_density :: "real \<Rightarrow> real \<Rightarrow> real \<Rightarrow> real" where
  "normal_density mean var x = exp (- (x - mean)\<^sup>2 / (2 * var)) / sqrt (2 * pi * var)"

definition inverse_gamma_density :: "(real \<Rightarrow> real) \<Rightarrow> real \<Rightarrow> real \<Rightarrow> real \<Rightarrow> real" where
  "inverse_gamma_density Gam shape scale s =
     scale powr shape / Gam shape * s powr (- shape - 1) * exp (- scale / s)"

text \<open>
  A variate of the normal distribution with a mean and a variance is the mean plus the
  standard deviation times a standard normal variate \<open>z\<close>; a variate of the inverse-gamma
  distribution with a scale is the scale times a standard inverse-gamma variate \<open>w\<close> of
  the same shape.
\<close>

definition normal_variate :: "real \<Rightarrow> real \<Rightarrow> real \<Rightarrow> real" where
  "normal_variate mean var z = mean + sqrt var * z"

definition inverse_gamma_variate :: "real \<Rightarrow> real \<Rightarrow> real" where
  "inverse_gamma_variate scale w = scale * w"

text \<open>
  The last summand of \<open>beta_post\<close> in the grouping of the conjugate-prior table that the
  notebook quotes: \<open>n nu_0 / (nu_0 + n)\<close> times \<open>(dbar - mu_0)\<^sup>2 / 2\<close>.
\<close>

definition cross_term_conventional :: "real \<Rightarrow> real \<Rightarrow> real \<Rightarrow> real \<Rightarrow> real" where
  "cross_term_conventional n nu_0 dbar mu_0 = n * nu_0 / (nu_0 + n) * ((dbar - mu_0)\<^sup>2 / 2)"

section \<open>A sample run of the generator\<close>

text \<open>
  One run of the generator, for the examples below: it yields the standard inverse-gamma
  variates 1, 2, 3, ... (for every shape) and the standard normal variates -1, 0, 1, ...
\<close>

definition example_source :: random_source where
  "example_source = \<lparr> std_invgamma = (\<lambda>a i. real (Suc i)), std_normal = (\<lambda>i. real i - 1) \<rparr>"

section \<open>The density evaluator\<close>

lemma norm_pdf_finite:
  assumes "0 < s"
  shows "norm_pdf x (Finite m) (Finite s) = Finite (normal_density m (s\<^sup>2) x)"
proof -
  have r: "sqrt (2 * pi * s\<^sup>2) = sqrt (2 * pi) * s"
    using assms by (simp add: real_sqrt_mult)
  show ?thesis
    using assms
    by (simp add: norm_pdf_def fl_sub_def normal_density_def power_divide r)
qed

lemma norm_pdf_sqrt:
  assumes "0 < v"
  shows "norm_pdf x (Finite m) (fl_sqrt (Finite v)) = Finite (normal_density m v x)"
  using assms norm_pdf_finite [of "sqrt v" x m] by simp

lemma invgamma_pdf_finite:
  assumes "0 < s" "0 < a" "0 < b"
  shows "invgamma_pdf Gam s a b = Finite (inverse_gamma_density Gam a b s)"
proof -
  have "(s / b) powr (- a - 1) / b = b powr a * s powr (- a - 1)"
  proof -
    have "(s / b) powr (- a - 1) = s powr (- a - 1) / b powr (- a - 1)"
      using assms by (simp add: powr_divide)
    also have "b powr (- a - 1) = 1 / (b powr a * b)"
      using assms by (simp add: powr_diff powr_minus field_simps)
    finally show ?thesis
      using assms by (simp add: field_simps)
  qed
  then have "invgamma_std_pdf Gam (s / b) a / b = inverse_gamma_density Gam a b s"
    using assms by (simp add: invgamma_std_pdf_def inverse_gamma_density_def field_simps)
  then show ?thesis
    using assms by (simp add: invgamma_pdf_def fl_sub_def)
qed

lemma normal_density_nonneg: "0 < v \<Longrightarrow> 0 \<le> normal_density m v x"
  by (simp add: normal_density_def)

lemma inverse_gamma_density_nonneg:
  "0 \<le> Gam a \<Longrightarrow> 0 \<le> inverse_gamma_density Gam a b s"
  by (simp add: inverse_gamma_density_def)

text \<open>
  Claim C3. For \<open>sigma2 > 0\<close> and \<open>nu\<close>, \<open>alpha\<close>, \<open>beta > 0\<close> the evaluator returns a
  finite, non-negative number: the normal density at \<open>x\<close> with mean \<open>mu\<close> and variance
  \<open>sigma2 / nu\<close> times the inverse-gamma density at \<open>sigma2\<close> with shape \<open>alpha\<close> and
  scale \<open>beta\<close>. The gamma function enters through its value at \<open>alpha\<close>, which is
  positive.
\<close>

theorem norminvgamma_pdf_product:
  assumes "0 < sigma2" "0 < nu" "0 < alpha" "0 < beta" "0 < Gam alpha"
  shows "norminvgamma_pdf Gam x sigma2 mu nu alpha beta =
           Inr (Finite (normal_density mu (sigma2 / nu) x *
                        inverse_gamma_density Gam alpha beta sigma2))
         \<and> 0 \<le> normal_density mu (sigma2 / nu) x * inverse_gamma_density Gam alpha beta sigma2"
proof -
  have v: "0 < sigma2 / nu"
    using assms by simp
  have "norminvgamma_pdf Gam x sigma2 mu nu alpha beta =
          Inr (fl_mul (norm_pdf x (Finite mu) (fl_sqrt (Finite (sigma2 / nu))))
                      (invgamma_pdf Gam sigma2 alpha beta))"
    using assms by (simp add: norminvgamma_pdf_def)
  also have "\<dots> = Inr (Finite (normal_density mu (sigma2 / nu) x *
                                 inverse_gamma_density Gam alpha beta sigma2))"
    using assms by (simp only: norm_pdf_sqrt [OF v] invgamma_pdf_finite fl_mul.simps)
  finally have eq: "norminvgamma_pdf Gam x sigma2 mu nu alpha beta =
      Inr (Finite (normal_density mu (sigma2 / nu) x *
                   inverse_gamma_density Gam alpha beta sigma2))" .
  have "0 \<le> normal_density mu (sigma2 / nu) x"
    using v by (rule normal_density_nonneg)
  moreover have "0 \<le> inverse_gamma_density Gam alpha beta sigma2"
    using assms by (simp add: inverse_gamma_density_nonneg)
  ultimately have "0 \<le> normal_density mu (sigma2 / nu) x *
                        inverse_gamma_density Gam alpha beta sigma2"
    by simp
  with eq show ?thesis
    by simp
qed

text \<open>At \<open>alpha = 1\<close> the gamma function has the value 1.\<close>

theorem norminvgamma_pdf_product_witness:
  "(0::real) < 1 \<and> (0::real) < 2 \<and> (0::real) < 1 \<and> (0::real) < 3 \<and>
   (0::real) < (\<lambda>a. 1) (1::real) \<and>
   norminvgamma_pdf (\<lambda>a. 1) 0 1 0 2 1 3 = Inr (Finite (3 * exp (- 3) / sqrt pi))"
  using norminvgamma_pdf_product [of 1 2 1 3 "\<lambda>a. 1" 0 0]
  by (simp add: normal_density_def inverse_gamma_density_def)

text \<open>
  Claim C9. For \<open>sigma2 \<le> 0\<close> (and \<open>nu\<close>, \<open>alpha\<close>, \<open>beta > 0\<close>) the evaluator raises
  nothing and returns NaN: the normal factor is NaN, because its scale
  \<open>sqrt(sigma2 / nu)\<close> is NaN or zero, and the inverse-gamma factor is 0.
\<close>

theorem norminvgamma_pdf_nonpositive_sigma2:
  assumes "sigma2 \<le> 0" "0 < nu" "0 < alpha" "0 < beta"
  shows "norminvgamma_pdf Gam x sigma2 mu nu alpha beta = Inr NaN
         \<and> norm_pdf x (Finite mu) (fl_sqrt (Finite (sigma2 / nu))) = NaN
         \<and> invgamma_pdf Gam sigma2 alpha beta = Finite 0"
proof -
  have n: "norm_pdf x (Finite mu) (fl_sqrt (Finite (sigma2 / nu))) = NaN"
  proof (cases "sigma2 = 0")
    case True
    then show ?thesis
      by (simp add: norm_pdf_def)
  next
    case False
    with assms have "sigma2 / nu < 0"
      by (simp add: divide_neg_pos)
    then have "fl_sqrt (Finite (sigma2 / nu)) = NaN"
      by simp
    then show ?thesis
      by (simp add: norm_pdf_def)
  qed
  have "sigma2 / beta \<le> 0"
    using assms by (simp add: divide_le_0_iff)
  then have g: "invgamma_pdf Gam sigma2 alpha beta = Finite 0"
    using assms by (simp add: invgamma_pdf_def fl_sub_def)
  show ?thesis
    using assms by (simp add: norminvgamma_pdf_def n g del: fl_sqrt.simps)
qed

theorem norminvgamma_pdf_nonpositive_sigma2_witness:
  "(- 4 :: real) \<le> 0 \<and> (0::real) < 2 \<and> (0::real) < 1 \<and> (0::real) < 3 \<and>
   norminvgamma_pdf (\<lambda>a. 1) 0 (- 4) 0 2 1 3 = Inr NaN \<and>
   norminvgamma_pdf (\<lambda>a. 1) 0 0 0 2 1 3 = Inr NaN"
  using norminvgamma_pdf_nonpositive_sigma2 [of "- 4" 2 1 3 "\<lambda>a. 1" 0 0]
    norminvgamma_pdf_nonpositive_sigma2 [of 0 2 1 3 "\<lambda>a. 1" 0 0]
  by simp

section \<open>The plot of Task 1\<close>

text \<open>
  Claim C10. The plot passes the sampled variance \<open>sigma2\<close> as the scale of
  \<open>norm.pdf\<close>, which is a standard deviation: the curve drawn for the sample
  \<open>(xi, sigma2)\<close> is the normal density with mean \<open>xi\<close> and variance \<open>sigma2\<^sup>2\<close>, and
  that is another function than the density with variance \<open>sigma2\<close> unless \<open>sigma2 = 1\<close>.
\<close>

theorem task1_curve_variance_squared:
  assumes "0 < s2"
  shows "task1_curve x [[Finite xi, Finite s2]] =
           map (\<lambda>t. Finite (normal_density xi (s2\<^sup>2) t)) x
         \<and> (s2 \<noteq> 1 \<longrightarrow> normal_density xi (s2\<^sup>2) \<noteq> normal_density xi s2)"
proof
  show "task1_curve x [[Finite xi, Finite s2]] =
          map (\<lambda>t. Finite (normal_density xi (s2\<^sup>2) t)) x"
    using assms by (simp add: task1_curve_def norm_pdf_finite)
  show "s2 \<noteq> 1 \<longrightarrow> normal_density xi (s2\<^sup>2) \<noteq> normal_density xi s2"
  proof (intro impI notI)
    assume ne: "s2 \<noteq> 1" and eq: "normal_density xi (s2\<^sup>2) = normal_density xi s2"
    from eq have "normal_density xi (s2\<^sup>2) xi = normal_density xi s2 xi"
      by simp
    then have "sqrt (2 * pi * s2\<^sup>2) = sqrt (2 * pi * s2)"
      using assms by (simp add: normal_density_def)
    then have "s2\<^sup>2 = s2"
      by simp
    then show False
      using assms ne by (simp add: power2_eq_square)
  qed
qed

theorem task1_curve_variance_squared_witness:
  "(0::real) < 2 \<and>
   task1_curve [0, 1] [[Finite 0, Finite 2]] =
     [Finite (normal_density 0 4 0), Finite (normal_density 0 4 1)] \<and>
   normal_density 0 4 \<noteq> normal_density 0 2"
  using task1_curve_variance_squared [of 2 "[0, 1]" 0] by simp

section \<open>The sampler\<close>

lemma transpose_pair:
  "length xs = length ys \<Longrightarrow> transpose [xs, ys] = map (\<lambda>(x, y). [x, y]) (zip xs ys)"
  by (induction xs ys rule: list_induct2) simp_all

lemma zip_upt_map: "zip [0..<n] (map f [0..<n]) = map (\<lambda>i. (i, f i)) [0..<n]"
  by (simp add: zip_map2 zip_same_conv_map)

lemma zip_map_map_upt:
  "zip (map f [0..<n]) (map g [0..<n]) = map (\<lambda>i. (f i, g i)) [0..<n]"
  by (simp add: zip_map_map zip_same_conv_map)

lemma norminvgamma_rvs_valid:
  assumes "0 < nu" "0 < alpha" "0 < beta" "1 \<le> size'" "\<forall>i. 0 < std_invgamma rs alpha i"
  shows "norminvgamma_rvs rs mu nu alpha beta size' =
           Inr (map (\<lambda>i. [Finite (std_normal rs i * sqrt (std_invgamma rs alpha i * beta / nu) + mu),
                            Finite (std_invgamma rs alpha i * beta)])
                    [0..<nat size'])"
proof -
  let ?n = "nat size'"
  let ?s = "\<lambda>i. std_invgamma rs alpha i * beta"
  let ?sigma2 = "map (\<lambda>i. Finite (?s i)) [0..<?n]"
  let ?scale = "map (\<lambda>i. Finite (sqrt (?s i / nu))) [0..<?n]"
  let ?x = "map (\<lambda>i. Finite (std_normal rs i * sqrt (?s i / nu) + mu)) [0..<?n]"
  have spos: "0 < ?s i" for i
    using assms by simp
  have qpos: "0 < ?s i / nu" for i
    using spos assms by simp
  have n: "0 < ?n"
    using assms by simp
  have sig: "invgamma_rvs rs alpha beta size' = Inr ?sigma2"
    using assms by (simp add: invgamma_rvs_def)
  have sc: "map (\<lambda>s. fl_sqrt (fl_div s (Finite nu))) ?sigma2 = ?scale"
    using assms qpos by (simp add: less_imp_le)
  have ok: "list_all fl_ge0 ?scale"
    using qpos by (simp add: list_all_iff less_imp_le)
  have nz: "\<not> list_all (\<lambda>s. s = Finite 0) ?scale"
  proof
    assume "list_all (\<lambda>s. s = Finite 0) ?scale"
    then have "\<forall>i \<in> set [0..<?n]. sqrt (?s i / nu) = 0"
      by (simp add: list_all_iff)
    moreover have "0 \<in> set [0..<?n]"
      using n by simp
    ultimately have "sqrt (?s 0 / nu) = 0"
      by blast
    then show False
      using qpos [of 0] by auto
  qed
  have x: "norm_rvs rs mu ?scale size' = Inr ?x"
    using assms ok nz by (simp add: norm_rvs_def zip_upt_map o_def)
  have tr: "transpose [?x, ?sigma2] =
          map (\<lambda>i. [Finite (std_normal rs i * sqrt (?s i / nu) + mu), Finite (?s i)]) [0..<?n]"
    by (simp add: transpose_pair zip_map_map_upt o_def)
  show ?thesis
    by (simp only: norminvgamma_rvs_def sig sc x sum.case tr)
qed

text \<open>
  Claim C2. For \<open>nu\<close>, \<open>alpha\<close>, \<open>beta > 0\<close> and \<open>size \<ge> 1\<close> the sampler returns a matrix
  of \<open>size\<close> rows; row \<open>i\<close> is \<open>(x\<^sub>i, sigma2\<^sub>i)\<close>, where \<open>sigma2\<^sub>i\<close> is the \<open>i\<close>-th
  inverse-gamma variate with shape \<open>alpha\<close> and scale \<open>beta\<close> and \<open>x\<^sub>i\<close> is the \<open>i\<close>-th
  normal variate with mean \<open>mu\<close> and variance \<open>sigma2\<^sub>i / nu\<close>, for the \<open>sigma2\<^sub>i\<close> of the
  same row. The inverse-gamma variates of the generator are positive.
\<close>

theorem norminvgamma_rvs_rows:
  assumes "0 < nu" "0 < alpha" "0 < beta" "1 \<le> size'" "\<forall>i. 0 < std_invgamma rs alpha i"
  shows "\<exists>rows. norminvgamma_rvs rs mu nu alpha beta size' = Inr rows \<and>
                length rows = nat size' \<and>
                (\<forall>i < nat size'.
                   rows ! i =
                     (let sigma2 = inverse_gamma_variate beta (std_invgamma rs alpha i);
                          x = normal_variate mu (sigma2 / nu) (std_normal rs i)
                      in [Finite x, Finite sigma2]))"
  using assms
  by (simp add: norminvgamma_rvs_valid normal_variate_def inverse_gamma_variate_def
      Let_def mult.commute add.commute)

theorem norminvgamma_rvs_rows_witness:
  "(0::real) < 1 \<and> (0::real) < 1 \<and> (0::real) < 1 \<and> (1::int) \<le> 2 \<and>
   (\<forall>i. 0 < std_invgamma example_source 1 i) \<and>
   (\<exists>rows. norminvgamma_rvs example_source 0 1 1 1 2 = Inr rows \<and>
           length rows = 2 \<and>
           rows ! 0 = [Finite (- 1), Finite 1] \<and> rows ! 1 = [Finite 0, Finite 2])"
  using norminvgamma_rvs_rows [of 1 1 1 2 example_source 0]
  by (auto simp add: example_source_def normal_variate_def inverse_gamma_variate_def Let_def)

subsection \<open>Errors of the sampler\<close>

lemma norminvgamma_rvs_first_error:
  "invgamma_rvs rs alpha beta size' = Inl e \<Longrightarrow>
   norminvgamma_rvs rs mu nu alpha beta size' = Inl e"
  by (simp add: norminvgamma_rvs_def)

lemma norminvgamma_rvs_second_error:
  "invgamma_rvs rs alpha beta size' = Inr sigma2 \<Longrightarrow>
   (norminvgamma_rvs rs mu nu alpha beta size' = Inl DomainError) =
     (\<not> list_all fl_ge0 (map (\<lambda>s. fl_sqrt (fl_div s (Finite nu))) sigma2))"
  by (simp add: norminvgamma_rvs_def norm_rvs_def split: sum.splits)

lemma scale_check_zero_variances:
  "list_all fl_ge0 (map (\<lambda>s. fl_sqrt (fl_div s (Finite nu))) (replicate n (Finite 0))) =
     (n = 0 \<or> nu \<noteq> 0)"
  by (cases n) (auto simp add: list_all_iff)

lemma scale_ok_positive_variance:
  assumes "0 < q"
  shows "fl_ge0 (fl_sqrt (fl_div (Finite q) (Finite nu))) = (0 \<le> nu)"
proof -
  consider "nu = 0" | "0 < nu" | "nu < 0"
    by linarith
  then show ?thesis
  proof cases
    case 1
    with assms show ?thesis by simp
  next
    case 2
    with assms have "0 \<le> q / nu" by simp
    with 2 show ?thesis by simp
  next
    case 3
    with assms have "q / nu < 0" by (simp add: divide_pos_neg)
    with 3 show ?thesis by simp
  qed
qed

lemma scale_check_positive_variances:
  assumes "\<forall>i. 0 < w i" and "0 < beta"
  shows "list_all fl_ge0
           (map (\<lambda>s. fl_sqrt (fl_div s (Finite nu)))
                (map (\<lambda>i. fl_add (fl_mul (Finite (w i)) (Finite beta)) (Finite 0)) [0..<n])) =
         (n = 0 \<or> 0 \<le> nu)"
proof -
  have pos: "0 < w i * beta" for i
    using assms by simp
  have "list_all fl_ge0
           (map (\<lambda>s. fl_sqrt (fl_div s (Finite nu)))
                (map (\<lambda>i. fl_add (fl_mul (Finite (w i)) (Finite beta)) (Finite 0)) [0..<n])) =
        (\<forall>i \<in> set [0..<n]. fl_ge0 (fl_sqrt (fl_div (Finite (w i * beta)) (Finite nu))))"
    by (simp add: list_all_iff del: fl_div.simps fl_sqrt.simps)
  also have "\<dots> = (\<forall>i \<in> set [0..<n]. 0 \<le> nu)"
    by (simp only: scale_ok_positive_variance [OF pos])
  also have "\<dots> = (n = 0 \<or> 0 \<le> nu)"
    by auto
  finally show ?thesis .
qed

lemma norminvgamma_rvs_domain_error_cases:
  assumes "\<forall>i. 0 < std_invgamma rs alpha i"
  shows "(norminvgamma_rvs rs mu nu alpha beta size' = Inl DomainError) =
           (alpha \<le> 0 \<or> beta < 0 \<or>
            (1 \<le> size' \<and> (nu < 0 \<and> 0 < beta \<or> nu = 0 \<and> beta = 0)))"
proof (cases "0 < alpha \<and> 0 \<le> beta")
  case False
  then have "invgamma_rvs rs alpha beta size' = Inl DomainError"
    by (simp add: invgamma_rvs_def)
  then have "norminvgamma_rvs rs mu nu alpha beta size' = Inl DomainError"
    by (rule norminvgamma_rvs_first_error)
  with False show ?thesis
    by auto
next
  case valid: True
  show ?thesis
  proof (cases "size' < 0")
    case True
    with valid have "invgamma_rvs rs alpha beta size' = Inl NegativeDimensions"
      by (simp add: invgamma_rvs_def)
    then have "norminvgamma_rvs rs mu nu alpha beta size' = Inl NegativeDimensions"
      by (rule norminvgamma_rvs_first_error)
    with valid True show ?thesis
      by simp
  next
    case nonneg: False
    then have n: "(nat size' = 0) = (\<not> 1 \<le> size')"
      by auto
    show ?thesis
    proof (cases "beta = 0")
      case True
      with valid nonneg have
        "invgamma_rvs rs alpha beta size' = Inr (replicate (nat size') (Finite 0))"
        by (simp add: invgamma_rvs_def)
      then have "(norminvgamma_rvs rs mu nu alpha beta size' = Inl DomainError) =
                   (\<not> (nat size' = 0 \<or> nu \<noteq> 0))"
        by (simp only: norminvgamma_rvs_second_error scale_check_zero_variances)
      with valid True n show ?thesis
        by auto
    next
      case False
      with valid have b: "0 < beta"
        by simp
      with valid nonneg have
        "invgamma_rvs rs alpha beta size' =
           Inr (map (\<lambda>i. fl_add (fl_mul (Finite (std_invgamma rs alpha i)) (Finite beta))
                                 (Finite 0))
                    [0..<nat size'])"
        by (simp add: invgamma_rvs_def)
      then have "(norminvgamma_rvs rs mu nu alpha beta size' = Inl DomainError) =
                   (\<not> (nat size' = 0 \<or> 0 \<le> nu))"
        by (simp only: norminvgamma_rvs_second_error
            scale_check_positive_variances [OF assms b])
      with valid b n show ?thesis
        by auto
    qed
  qed
qed

lemma transpose_replicate_pair:
  "transpose [replicate n a, replicate n b] = replicate n [a, b]"
  by (simp add: transpose_pair zip_replicate del: transpose.simps)

lemma norminvgamma_rvs_size_zero:
  assumes "0 < alpha" "0 \<le> beta"
  shows "norminvgamma_rvs rs mu nu alpha beta 0 = Inr []"
  using assms by (simp add: norminvgamma_rvs_def invgamma_rvs_def norm_rvs_def)

lemma norminvgamma_rvs_beta_zero:
  assumes "0 < alpha" "0 \<le> size'" "nu \<noteq> 0"
  shows "norminvgamma_rvs rs mu nu alpha 0 size' = Inr (replicate (nat size') [Finite mu, Finite 0])"
proof -
  let ?n = "nat size'"
  have sig: "invgamma_rvs rs alpha 0 size' = Inr (replicate ?n (Finite 0))"
    using assms by (simp add: invgamma_rvs_def)
  have sc: "map (\<lambda>s. fl_sqrt (fl_div s (Finite nu))) (replicate ?n (Finite 0)) =
              replicate ?n (Finite 0)"
    using assms by simp
  have x: "norm_rvs rs mu (replicate ?n (Finite 0)) size' = Inr (replicate ?n (Finite mu))"
    using assms by (simp add: norm_rvs_def list_all_iff)
  show ?thesis
    by (simp only: norminvgamma_rvs_def sig sc x sum.case transpose_replicate_pair)
qed

lemma norminvgamma_rvs_nu_zero:
  assumes "0 < alpha" "0 < beta" "1 \<le> size'" "\<forall>i. 0 < std_invgamma rs alpha i"
  shows "norminvgamma_rvs rs mu 0 alpha beta size' =
           Inr (map (\<lambda>i. [if std_normal rs i = 0 then NaN
                           else if 0 < std_normal rs i then PosInf else NegInf,
                           Finite (std_invgamma rs alpha i * beta)])
                    [0..<nat size'])"
proof -
  let ?n = "nat size'"
  let ?s = "\<lambda>i. std_invgamma rs alpha i * beta"
  let ?sigma2 = "map (\<lambda>i. Finite (?s i)) [0..<?n]"
  let ?scale = "map (\<lambda>i. PosInf) [0..<?n]"
  let ?m = "\<lambda>i. if std_normal rs i = 0 then NaN
                else if 0 < std_normal rs i then PosInf else NegInf"
  let ?x = "map ?m [0..<?n]"
  have spos: "0 < ?s i" for i
    using assms by simp
  have n: "0 < ?n"
    using assms by simp
  have sig: "invgamma_rvs rs alpha beta size' = Inr ?sigma2"
    using assms by (simp add: invgamma_rvs_def)
  have one: "fl_sqrt (fl_div (Finite q) (Finite 0)) = PosInf" if "0 < q" for q
    using that by simp
  have sc: "map (\<lambda>s. fl_sqrt (fl_div s (Finite 0))) ?sigma2 = ?scale"
    by (simp add: one [OF spos] del: fl_div.simps fl_sqrt.simps)
  have ok: "list_all fl_ge0 ?scale"
    by (simp add: list_all_iff)
  have nz: "\<not> list_all (\<lambda>s. s = Finite 0) ?scale"
  proof
    assume "list_all (\<lambda>s. s = Finite 0) ?scale"
    then have "\<forall>i \<in> set [0..<?n]. PosInf = Finite 0"
      by (simp add: list_all_iff)
    moreover have "0 \<in> set [0..<?n]"
      using n by simp
    ultimately have "PosInf = Finite 0"
      by blast
    then show False
      by simp
  qed
  have x: "norm_rvs rs mu ?scale size' = Inr ?x"
    using assms ok nz by (simp add: norm_rvs_def zip_upt_map o_def)
  have tr: "transpose [?x, ?sigma2] = map (\<lambda>i. [?m i, Finite (?s i)]) [0..<?n]"
    by (simp add: transpose_pair zip_map_map_upt o_def del: transpose.simps)
  show ?thesis
    by (simp only: norminvgamma_rvs_def sig sc x sum.case tr)
qed

lemma norminvgamma_rvs_negative_size:
  assumes "0 < alpha" "0 \<le> beta" "size' < 0"
  shows "norminvgamma_rvs rs mu nu alpha beta size' = Inl NegativeDimensions"
  using assms by (simp add: norminvgamma_rvs_def invgamma_rvs_def)

text \<open>
  Claim C6, as the code has it. The sampler checks nothing itself; what it does with
  arguments outside the domain is what the two library calls do, the inverse-gamma
  variates of the generator being positive:
  \<^item> \<open>alpha \<le> 0\<close> or \<open>beta < 0\<close>: the domain error;
  \<^item> otherwise \<open>size < 0\<close>: NumPy's error for negative dimensions;
  \<^item> otherwise \<open>size = 0\<close>: the empty matrix;
  \<^item> otherwise \<open>beta = 0\<close>: the domain error for \<open>nu = 0\<close>, else \<open>size\<close> rows
    \<open>(mu, 0)\<close>;
  \<^item> otherwise \<open>nu < 0\<close>: the domain error;
  \<^item> otherwise \<open>nu = 0\<close>: rows whose mean is NaN, plus or minus infinity as the normal
    variate is zero, positive or negative, with the variance \<open>beta w\<^sub>i\<close>;
  \<^item> otherwise the rows of the valid case.
  So the domain error is raised exactly when \<open>alpha \<le> 0\<close>, or \<open>beta < 0\<close>, or
  \<open>size \<ge> 1\<close> and either \<open>nu < 0\<close> with \<open>beta > 0\<close> or \<open>nu = 0\<close> with \<open>beta = 0\<close>.
\<close>

theorem norminvgamma_rvs_outcome:
  assumes "\<forall>i. 0 < std_invgamma rs alpha i"
  shows "norminvgamma_rvs rs mu nu alpha beta size' =
           (if alpha \<le> 0 \<or> beta < 0 then Inl DomainError
            else if size' < 0 then Inl NegativeDimensions
            else if size' = 0 then Inr []
            else if beta = 0 then
              (if nu = 0 then Inl DomainError
               else Inr (replicate (nat size') [Finite mu, Finite 0]))
            else if nu < 0 then Inl DomainError
            else if nu = 0 then
              Inr (map (\<lambda>i. [if std_normal rs i = 0 then NaN
                              else if 0 < std_normal rs i then PosInf else NegInf,
                              Finite (std_invgamma rs alpha i * beta)])
                       [0..<nat size'])
            else
              Inr (map (\<lambda>i. [Finite (std_normal rs i *
                                       sqrt (std_invgamma rs alpha i * beta / nu) + mu),
                              Finite (std_invgamma rs alpha i * beta)])
                       [0..<nat size']))
         \<and> ((norminvgamma_rvs rs mu nu alpha beta size' = Inl DomainError) =
              (alpha \<le> 0 \<or> beta < 0 \<or>
               (1 \<le> size' \<and> (nu < 0 \<and> 0 < beta \<or> nu = 0 \<and> beta = 0))))"
proof
  note dom = norminvgamma_rvs_domain_error_cases [OF assms, of mu nu beta size']
  show "(norminvgamma_rvs rs mu nu alpha beta size' = Inl DomainError) =
              (alpha \<le> 0 \<or> beta < 0 \<or>
               (1 \<le> size' \<and> (nu < 0 \<and> 0 < beta \<or> nu = 0 \<and> beta = 0)))"
    by (rule dom)
  consider (bad) "alpha \<le> 0 \<or> beta < 0"
    | (neg) "0 < alpha" "0 \<le> beta" "size' < 0"
    | (zero) "0 < alpha" "0 \<le> beta" "size' = 0"
    | (b0n0) "0 < alpha" "beta = 0" "1 \<le> size'" "nu = 0"
    | (b0) "0 < alpha" "beta = 0" "1 \<le> size'" "nu \<noteq> 0"
    | (nneg) "0 < alpha" "0 < beta" "1 \<le> size'" "nu < 0"
    | (n0) "0 < alpha" "0 < beta" "1 \<le> size'" "nu = 0"
    | (valid) "0 < alpha" "0 < beta" "1 \<le> size'" "0 < nu"
    by linarith
  then show "norminvgamma_rvs rs mu nu alpha beta size' =
           (if alpha \<le> 0 \<or> beta < 0 then Inl DomainError
            else if size' < 0 then Inl NegativeDimensions
            else if size' = 0 then Inr []
            else if beta = 0 then
              (if nu = 0 then Inl DomainError
               else Inr (replicate (nat size') [Finite mu, Finite 0]))
            else if nu < 0 then Inl DomainError
            else if nu = 0 then
              Inr (map (\<lambda>i. [if std_normal rs i = 0 then NaN
                              else if 0 < std_normal rs i then PosInf else NegInf,
                              Finite (std_invgamma rs alpha i * beta)])
                       [0..<nat size'])
            else
              Inr (map (\<lambda>i. [Finite (std_normal rs i *
                                       sqrt (std_invgamma rs alpha i * beta / nu) + mu),
                              Finite (std_invgamma rs alpha i * beta)])
                       [0..<nat size']))"
  proof cases
    case bad
    with dom show ?thesis by auto
  next
    case neg
    then show ?thesis by (simp add: norminvgamma_rvs_negative_size)
  next
    case zero
    then show ?thesis by (simp add: norminvgamma_rvs_size_zero)
  next
    case b0n0
    with dom have "norminvgamma_rvs rs mu nu alpha beta size' = Inl DomainError" by simp
    with b0n0 show ?thesis by simp
  next
    case b0
    then show ?thesis by (simp add: norminvgamma_rvs_beta_zero)
  next
    case nneg
    with dom have "norminvgamma_rvs rs mu nu alpha beta size' = Inl DomainError" by simp
    with nneg show ?thesis by simp
  next
    case n0
    with assms show ?thesis by (simp add: norminvgamma_rvs_nu_zero)
  next
    case valid
    with assms show ?thesis by (simp add: norminvgamma_rvs_valid)
  qed
qed

theorem norminvgamma_rvs_outcome_witness:
  "(\<forall>i. 0 < std_invgamma example_source 1 i) \<and>
   norminvgamma_rvs example_source 0 (- 1) 1 1 1 = Inl DomainError \<and>
   norminvgamma_rvs example_source 0 1 1 1 (- 1) = Inl NegativeDimensions \<and>
   norminvgamma_rvs example_source 0 1 1 2 0 = Inr [] \<and>
   norminvgamma_rvs example_source 3 1 1 0 2 = Inr [[Finite 3, Finite 0], [Finite 3, Finite 0]] \<and>
   norminvgamma_rvs example_source 3 0 1 2 3 =
     Inr [[NegInf, Finite 2], [NaN, Finite 4], [PosInf, Finite 6]]"
  using norminvgamma_rvs_outcome [of example_source 1 0 "- 1" 1 1]
    norminvgamma_rvs_outcome [of example_source 1 0 1 1 "- 1"]
    norminvgamma_rvs_outcome [of example_source 1 0 1 2 0]
    norminvgamma_rvs_outcome [of example_source 1 3 1 0 2]
    norminvgamma_rvs_outcome [of example_source 1 3 0 2 3]
  by (simp add: example_source_def upt_rec numeral_2_eq_2 numeral_3_eq_3)

text \<open>
  Three calls that the claim expects to fail return a matrix: with \<open>size = 0\<close> the empty
  one, with \<open>beta = 0\<close> a variance 0, with \<open>nu = 0\<close> an infinite mean.
\<close>

theorem norminvgamma_rvs_no_validation_counterexample:
  "norminvgamma_rvs example_source 0 1 1 1 0 = Inr [] \<and>
   norminvgamma_rvs example_source 5 1 1 0 1 = Inr [[Finite 5, Finite 0]] \<and>
   norminvgamma_rvs example_source 5 0 1 1 1 = Inr [[NegInf, Finite 1]]"
  by (simp add: norminvgamma_rvs_def invgamma_rvs_def norm_rvs_def example_source_def)

section \<open>The posterior update\<close>

lemma np_mean_nonempty:
  "data \<noteq> [] \<Longrightarrow> np_mean data = Finite (sum_list data / real (length data))"
  by (simp add: np_mean_def)

lemma np_mean_empty: "np_mean [] = NaN"
  by (simp add: np_mean_def)

lemma sum_loop_finite:
  "sum_loop (Finite dbar) (Finite s) data = Finite (s + (\<Sum>x\<leftarrow>data. (x - dbar)\<^sup>2))"
  by (induction data arbitrary: s) (simp_all add: fl_sq_def fl_sub_def power2_eq_square)

lemma cross_term_finite:
  "nu_0 + n \<noteq> 0 \<Longrightarrow>
   cross_term n nu_0 (Finite dbar) mu_0 =
     Finite (n * nu_0 * (dbar - mu_0)\<^sup>2 / (2 * (nu_0 + n)))"
  by (simp add: cross_term_def fl_sq_def fl_sub_def power2_eq_square)

lemma posterior_update_closed_form:
  assumes "data \<noteq> []" and "0 < nu_0"
  defines "n \<equiv> real (length data)"
  defines "dbar \<equiv> sum_list data / real (length data)"
  shows "posterior_update mu_0 nu_0 alpha_0 beta_0 data =
           \<lparr> mu_post = Finite ((nu_0 * mu_0 + n * dbar) / (nu_0 + n)),
             nu_post = nu_0 + n,
             alpha_post = alpha_0 + n / 2,
             beta_post = Finite (beta_0 + (1 / 2) * (\<Sum>x\<leftarrow>data. (x - dbar)\<^sup>2)
                                 + n * nu_0 * (dbar - mu_0)\<^sup>2 / (2 * (nu_0 + n))) \<rparr>"
proof -
  have pos: "0 < nu_0 + n"
    using assms(2) by (simp add: n_def add_pos_nonneg)
  then have nz: "nu_0 + n \<noteq> 0"
    by simp
  have m: "np_mean data = Finite dbar"
    using assms(1) by (simp add: np_mean_nonempty dbar_def)
  show ?thesis
    using nz
    by (simp add: posterior_update_def Let_def m sum_loop_finite cross_term_finite
        n_def [symmetric])
qed

text \<open>
  Claim C1. For non-empty data and \<open>nu_0 > 0\<close> the update returns the closed form:
  \<open>mu_post = (nu_0 mu_0 + n dbar) / (nu_0 + n)\<close>, \<open>nu_post = nu_0 + n\<close>,
  \<open>alpha_post = alpha_0 + n / 2\<close> and
  \<open>beta_post = beta_0 + 1/2 \<Sum> (d\<^sub>i - dbar)\<^sup>2 + n nu_0 (dbar - mu_0)\<^sup>2 / (2 (nu_0 + n))\<close>,
  with \<open>n\<close> the number of data and \<open>dbar\<close> their mean; all four values are finite.
\<close>

theorem posterior_update_exact:
  assumes "data \<noteq> []" and "0 < nu_0"
  shows "posterior_update mu_0 nu_0 alpha_0 beta_0 data =
           (let n = real (length data); dbar = sum_list data / n
            in \<lparr> mu_post = Finite ((nu_0 * mu_0 + n * dbar) / (nu_0 + n)),
                 nu_post = nu_0 + n,
                 alpha_post = alpha_0 + n / 2,
                 beta_post = Finite (beta_0 + (1 / 2) * (\<Sum>x\<leftarrow>data. (x - dbar)\<^sup>2)
                                     + n * nu_0 * (dbar - mu_0)\<^sup>2 / (2 * (nu_0 + n))) \<rparr>)"
  unfolding Let_def using assms by (rule posterior_update_closed_form)

theorem posterior_update_exact_witness:
  "[2, 4] \<noteq> ([] :: real list) \<and> (0 :: real) < 1 \<and>
   posterior_update 0 1 1 1 [2, 4] =
     \<lparr> mu_post = Finite 2, nu_post = 3, alpha_post = 2, beta_post = Finite 5 \<rparr>"
  using posterior_update_exact [of "[2, 4]" 1 0 1 1] by (simp add: Let_def)

text \<open>
  Claim C4. The last summand of \<open>beta_post\<close> as the code groups it, with the denominator
  \<open>2*nu_0 + 2*n\<close>, is the summand of the conjugate-prior table,
  \<open>n nu_0 / (nu_0 + n)\<close> times \<open>(dbar - mu_0)\<^sup>2 / 2\<close>, whenever \<open>nu_0 + n\<close> is not zero.
\<close>

theorem cross_term_groupings_agree:
  assumes "nu_0 + n \<noteq> 0"
  shows "cross_term n nu_0 (Finite dbar) mu_0 = Finite (cross_term_conventional n nu_0 dbar mu_0)"
  using assms by (simp add: cross_term_finite cross_term_conventional_def)

theorem cross_term_groupings_agree_witness:
  "(1 :: real) + 3 \<noteq> 0 \<and>
   cross_term 3 1 (Finite 4) 2 = Finite (cross_term_conventional 3 1 4 2) \<and>
   cross_term_conventional 3 1 4 2 = 3 / 2"
  using cross_term_groupings_agree [of 1 3 4 2] by (simp add: cross_term_conventional_def)

text \<open>
  Claim C5. For the prior \<open>mu_0 = 0\<close>, \<open>nu_0 = 0.054\<close>, \<open>alpha_0 = 1.12\<close>, \<open>beta_0 = 0.4\<close> and
  the data 1, 2, 3, 4 the update gives \<open>nu_post = 4.054\<close> and \<open>alpha_post = 3.12\<close>, and
  \<open>mu_post\<close> and \<open>beta_post\<close> are 2.4667 and 3.0665 when rounded to four decimals.
\<close>

theorem posterior_update_worked_example:
  "\<exists>m b. posterior_update 0 0.054 1.12 0.4 [1, 2, 3, 4] =
            \<lparr> mu_post = Finite m, nu_post = 4.054, alpha_post = 3.12, beta_post = Finite b \<rparr>
         \<and> \<bar>m - 2.4667\<bar> < 0.00005 \<and> \<bar>b - 3.0665\<bar> < 0.00005"
proof -
  have "posterior_update 0 0.054 1.12 0.4 [1, 2, 3, 4] =
          \<lparr> mu_post = Finite (5000 / 2027), nu_post = 4.054, alpha_post = 3.12,
            beta_post = Finite (2.9 + 675 / 4054) \<rparr>"
    by (simp add: posterior_update_closed_form power2_eq_square)
  moreover have "\<bar>5000 / 2027 - 2.4667\<bar> < (0.00005 :: real)"
    by simp
  moreover have "\<bar>(2.9 + 675 / 4054) - 3.0665\<bar> < (0.00005 :: real)"
    by simp
  ultimately show ?thesis
    by blast
qed

text \<open>
  Claim C7, as the code has it. With an empty data array the mean is NaN, and so are
  \<open>mu_post\<close> and \<open>beta_post\<close>; \<open>nu_post\<close> and \<open>alpha_post\<close> are the prior's \<open>nu_0\<close> and
  \<open>alpha_0\<close>. The update is not the identity on the hyperparameters.
\<close>

theorem posterior_update_empty_data:
  "posterior_update mu_0 nu_0 alpha_0 beta_0 [] =
     \<lparr> mu_post = NaN, nu_post = nu_0, alpha_post = alpha_0, beta_post = NaN \<rparr>"
  by (simp add: posterior_update_def np_mean_empty cross_term_def fl_sq_def fl_sub_def)

theorem posterior_update_empty_data_counterexample:
  "posterior_update 0 0.054 1.12 0.4 [] \<noteq>
     \<lparr> mu_post = Finite 0, nu_post = 0.054, alpha_post = 1.12, beta_post = Finite 0.4 \<rparr>"
  by (simp add: posterior_update_def np_mean_empty cross_term_def fl_sq_def fl_sub_def)

end
